theory Spec2Isabelle
  imports Complex_Main "HOL-Library.AList" "HOL-Library.Multiset"
begin

section \<open>JavaScript values\<close>

text \<open>
  Numbers of the TypeScript sources are modelled as exact rationals: sums and products
  are the mathematical ones, without the rounding of IEEE doubles. The literal \<open>1.2\<close> is
  \<open>6 / 5\<close>. A field that may be \<open>undefined\<close> or \<open>null\<close> is an \<open>option\<close>.
\<close>

definition num_or :: "rat \<Rightarrow> rat \<Rightarrow> rat" where
  \<comment> \<open>\<open>a || b\<close> for a number \<open>a\<close>: zero is falsy.\<close>
  "num_or a b = (if a = 0 then b else a)"

definition opt_or :: "rat option \<Rightarrow> rat \<Rightarrow> rat" where
  \<comment> \<open>\<open>a || b\<close> for a number \<open>a\<close> that may be \<open>undefined\<close> or \<open>null\<close>.\<close>
  "opt_or a b = (case a of None \<Rightarrow> b | Some v \<Rightarrow> num_or v b)"

definition truthy :: "string option \<Rightarrow> bool" where
  \<comment> \<open>Truthiness of a string that may be missing: the empty string is falsy.\<close>
  "truthy s = (case s of None \<Rightarrow> False | Some v \<Rightarrow> v \<noteq> [])"

definition single :: "'a list \<Rightarrow> 'a option" where
  \<comment> \<open>The store's \<open>.single()\<close>: the row when the query has exactly one, no data otherwise.\<close>
  "single rows = (case rows of [r] \<Rightarrow> Some r | _ \<Rightarrow> None)"

definition lookup_or :: "(string \<times> 'v) list \<Rightarrow> string option \<Rightarrow> 'v option" where
  \<comment> \<open>\<open>record[key]\<close> on a \<open>Record<string, _>\<close> kept as an association list.\<close>
  "lookup_or m k = (case k of None \<Rightarrow> None | Some key \<Rightarrow> map_of m key)"

section \<open>The relational store\<close>

type_synonym metafields = "(string \<times> string) list"

record order_item =
  item_id :: nat
  order_id :: string
  variant_id :: "string option"
  product_title :: string
  variant_title :: string
  sku :: string
  quantity :: rat
  unit_price :: rat
  line_total :: rat
  metafields :: metafields
  is_validated :: bool
  validated_at :: "string option"
  is_printed :: bool
  printed_at :: "string option"
  updated_at :: string

record supplier_order =
  order_key :: string
  shop_id :: string
  status :: string
  subtotal :: rat
  balance_adjustment :: rat
  total_ht :: rat
  total_ttc :: rat
  order_updated_at :: string

record product_variant =
  variant_key :: string
  cost :: "rat option"
  shopify_id :: "string option"

record metafield_config =
  config_shop_id :: string
  namespace :: string
  key :: string
  display_name :: string
  is_active :: bool

record database =
  supplier_order_items :: "order_item list"
  supplier_orders :: "supplier_order list"
  product_variants :: "product_variant list"
  metafield_configs :: "metafield_config list"
  next_item_id :: nat

text \<open>
  Row keys of \<open>supplier_order_items\<close> are generated by the store; the model numbers
  them from the counter \<open>next_item_id\<close>. The columns that the insert of the route leaves
  out take the column defaults.

  Modelled from the spec: the column defaults of \<open>supplier_order_items\<close> (the table's
  schema is not among the sources): a new row is neither validated nor printed.
\<close>

record item_row =
  row_order_id :: string
  row_variant_id :: "string option"
  row_product_title :: string
  row_variant_title :: string
  row_sku :: string
  row_quantity :: rat
  row_unit_price :: rat
  row_line_total :: rat
  row_metafields :: metafields

definition stored_row :: "string \<Rightarrow> nat \<Rightarrow> item_row \<Rightarrow> order_item" where
  "stored_row now n r =
     \<lparr>item_id = n, order_id = row_order_id r, variant_id = row_variant_id r,
      product_title = row_product_title r, variant_title = row_variant_title r,
      sku = row_sku r, quantity = row_quantity r, unit_price = row_unit_price r,
      line_total = row_line_total r, metafields = row_metafields r,
      is_validated = False, validated_at = None, is_printed = False, printed_at = None,
      updated_at = now\<rparr>"

fun insert_rows :: "string \<Rightarrow> nat \<Rightarrow> item_row list \<Rightarrow> order_item list" where
  "insert_rows now n [] = []"
| "insert_rows now n (r # rs) = stored_row now n r # insert_rows now (Suc n) rs"

section \<open>Order items route: shared helpers\<close>

datatype http_error = Http400 string | Http500 string

datatype response =
    Items "order_item list"
  | Item order_item
  | Updated nat
  | NoItems
  | NoMetafieldConfig
  | Success

definition updateOrderTotals :: "string \<Rightarrow> string \<Rightarrow> string \<Rightarrow> database \<Rightarrow> database" where
  "updateOrderTotals now orderId shopId db =
     (let items = filter (\<lambda>i. order_id i = orderId) (supplier_order_items db);
          subtotal' = num_or
            (fold (\<lambda>item sum. sum + num_or (line_total item) 0) (filter is_validated items) 0) 0;
          order = single (filter (\<lambda>ord. order_key ord = orderId) (supplier_orders db));
          balanceAdjustment =
            (case order of None \<Rightarrow> 0 | Some ord \<Rightarrow> num_or (balance_adjustment ord) 0);
          totalHt = subtotal' + balanceAdjustment;
          totalTtc = totalHt * (6 / 5)
      in db\<lparr>supplier_orders :=
           map (\<lambda>ord. if order_key ord = orderId \<and> shop_id ord = shopId
                      then ord\<lparr>subtotal := subtotal', total_ht := totalHt,
                             total_ttc := totalTtc, order_updated_at := now\<rparr>
                      else ord)
               (supplier_orders db)\<rparr>)"

definition variantCostMap_of :: "product_variant list \<Rightarrow> (string \<times> rat) list" where
  \<comment> \<open>\<open>variants.forEach(v => { map[v.id] = v.cost || 0 })\<close>\<close>
  "variantCostMap_of vs =
     fold (\<lambda>v m. AList.update (variant_key v) (opt_or (cost v) 0) m) vs []"

definition variantShopifyIdMap_of :: "product_variant list \<Rightarrow> (string \<times> string option) list" where
  \<comment> \<open>\<open>variants.forEach(v => { map[v.id] = v.shopify_id })\<close>\<close>
  "variantShopifyIdMap_of vs =
     fold (\<lambda>v m. AList.update (variant_key v) (shopify_id v) m) vs []"

definition variants_in :: "string option list \<Rightarrow> database \<Rightarrow> product_variant list" where
  \<comment> \<open>\<open>from('product_variants').in('id', ids.filter(Boolean))\<close>\<close>
  "variants_in ids db =
     filter (\<lambda>v. Some (variant_key v) \<in> set (filter truthy ids)) (product_variants db)"

definition active_configs :: "string \<Rightarrow> database \<Rightarrow> metafield_config list" where
  "active_configs shopId db =
     filter (\<lambda>c. config_shop_id c = shopId \<and> is_active c) (metafield_configs db)"

definition metafields_for ::
  "(string \<times> string option) list \<Rightarrow> (string \<times> metafields) list \<Rightarrow> string option \<Rightarrow> metafields" where
  \<comment> \<open>\<open>shopifyId ? (variantMetafieldsMap[shopifyId] || {}) : {}\<close>\<close>
  "metafields_for shopifyIds fetched vid =
     (let shopifyId = (case lookup_or shopifyIds vid of None \<Rightarrow> None | Some s \<Rightarrow> s)
      in if truthy shopifyId
         then (case lookup_or fetched shopifyId of None \<Rightarrow> [] | Some m \<Rightarrow> m)
         else [])"

text \<open>
  \<open>fetchVariantMetafields\<close> queries the commerce platform; its result (platform variant
  id to metafields) is a parameter \<open>fetch\<close> of the handlers, applied to the shop, the
  platform ids and the configured keys.
\<close>

type_synonym metafield_fetch =
  "string \<Rightarrow> string option list \<Rightarrow> metafield_config list \<Rightarrow> (string \<times> metafields) list"

section \<open>Order items route: POST (add items)\<close>

record add_item =
  add_variant_id :: "string option"
  add_product_title :: string
  add_variant_title :: string
  add_sku :: string
  add_quantity :: "rat option"

definition loop_count :: "rat \<Rightarrow> nat" where
  \<comment> \<open>Iterations of \<open>for (let i = 0; i < quantity; i++)\<close>.\<close>
  "loop_count q = nat \<lceil>q\<rceil>"

definition unit_rows ::
  "string \<Rightarrow> (string \<times> rat) list \<Rightarrow> (string \<times> string option) list \<Rightarrow>
   (string \<times> metafields) list \<Rightarrow> add_item \<Rightarrow> item_row list" where
  "unit_rows orderId variantCostMap variantShopifyIdMap variantMetafieldsMap item =
     (let unitPrice = opt_or (lookup_or variantCostMap (add_variant_id item)) 0;
          quantity' = opt_or (add_quantity item) 1;
          metafields' = metafields_for variantShopifyIdMap variantMetafieldsMap (add_variant_id item)
      in replicate (loop_count quantity')
           \<lparr>row_order_id = orderId, row_variant_id = add_variant_id item,
            row_product_title = add_product_title item,
            row_variant_title = add_variant_title item, row_sku = add_sku item,
            row_quantity = 1, row_unit_price = unitPrice, row_line_total = unitPrice,
            row_metafields = metafields'\<rparr>)"

definition itemsToInsert :: "string \<Rightarrow> string \<Rightarrow> metafield_fetch \<Rightarrow> add_item list \<Rightarrow> database \<Rightarrow> item_row list" where
  "itemsToInsert shopId orderId fetch items db =
     (let variants = variants_in (map add_variant_id items) db;
          variantCostMap = variantCostMap_of variants;
          variantShopifyIdMap = variantShopifyIdMap_of variants;
          metafieldConfigs = active_configs shopId db;
          variantMetafieldsMap =
            (if metafieldConfigs \<noteq> []
             then fetch shopId (map snd variantShopifyIdMap) metafieldConfigs else [])
      in concat (map (unit_rows orderId variantCostMap variantShopifyIdMap variantMetafieldsMap) items))"

definition mark_in_progress :: "string \<Rightarrow> string \<Rightarrow> database \<Rightarrow> database" where
  \<comment> \<open>\<open>update({ status: 'in_progress' }).eq('id', orderId).eq('status', 'draft')\<close>\<close>
  "mark_in_progress now orderId db =
     db\<lparr>supplier_orders :=
          map (\<lambda>ord. if order_key ord = orderId \<and> status ord = ''draft''
                     then ord\<lparr>status := ''in_progress'', order_updated_at := now\<rparr> else ord)
              (supplier_orders db)\<rparr>"

definition POST ::
  "string \<Rightarrow> metafield_fetch \<Rightarrow> string option \<Rightarrow> string \<Rightarrow> string \<Rightarrow> add_item list option \<Rightarrow>
   database \<Rightarrow> database \<times> (http_error + response)" where
  \<comment> \<open>\<open>insert_error\<close> is the error the store reports for the insert, if any.\<close>
  "POST now fetch insert_error shopId orderId items db =
     (case items of
        None \<Rightarrow> (db, Inl (Http400 ''Missing required fields''))
      | Some its \<Rightarrow>
          if shopId = [] \<or> orderId = [] then (db, Inl (Http400 ''Missing required fields''))
          else (case insert_error of
                  Some msg \<Rightarrow> (db, Inl (Http500 msg))
                | None \<Rightarrow>
                    let rows = itemsToInsert shopId orderId fetch its db;
                        insertedItems = insert_rows now (next_item_id db) rows;
                        db1 = db\<lparr>supplier_order_items := supplier_order_items db @ insertedItems,
                                next_item_id := next_item_id db + length rows\<rparr>;
                        db2 = updateOrderTotals now orderId shopId db1;
                        db3 = mark_in_progress now orderId db2
                    in (db3, Inr (Items insertedItems))))"

section \<open>Order items route: PUT\<close>

definition current_cost :: "(string \<times> rat) list \<Rightarrow> string option \<Rightarrow> rat" where
  \<comment> \<open>\<open>item.variant_id ? (costMap[item.variant_id] || 0) : 0\<close>\<close>
  "current_cost costMap vid = (if truthy vid then opt_or (lookup_or costMap vid) 0 else 0)"

definition reprice :: "string \<Rightarrow> (string \<times> rat) list \<Rightarrow> order_item \<Rightarrow> order_item list \<Rightarrow> order_item list" where
  \<comment> \<open>One \<open>update({ unit_price, line_total, updated_at }).eq('id', item.id)\<close>; \<open>item\<close> is
      the row as read before the loop.\<close>
  "reprice now costMap item table =
     (let cost' = current_cost costMap (variant_id item);
          lineTotal = cost' * quantity item
      in map (\<lambda>r. if item_id r = item_id item
                    then r\<lparr>unit_price := cost', line_total := lineTotal, updated_at := now\<rparr>
                    else r) table)"

definition recalculate_prices ::
  "string \<Rightarrow> string \<Rightarrow> string \<Rightarrow> database \<Rightarrow> database \<times> (http_error + response)" where
  "recalculate_prices now shopId orderId db =
     (if shopId = [] \<or> orderId = [] then (db, Inl (Http400 ''Missing required fields''))
      else
        let orderItems = filter (\<lambda>i. order_id i = orderId) (supplier_order_items db)
        in if orderItems = [] then (db, Inr NoItems)
           else
             let variants = variants_in (map variant_id orderItems) db;
                 costMap = variantCostMap_of variants;
                 table = fold (reprice now costMap) orderItems (supplier_order_items db);
                 db1 = db\<lparr>supplier_order_items := table\<rparr>;
                 db2 = updateOrderTotals now orderId shopId db1
             in (db2, Inr (Updated (length orderItems))))"

definition refresh_one ::
  "string \<Rightarrow> (string \<times> string option) list \<Rightarrow> (string \<times> metafields) list \<Rightarrow>
   order_item \<Rightarrow> order_item list \<times> nat \<Rightarrow> order_item list \<times> nat" where
  "refresh_one now variantShopifyIdMap variantMetafieldsMap item acc =
     (if \<not> truthy (variant_id item) then acc
      else
        let metafields' = metafields_for variantShopifyIdMap variantMetafieldsMap (variant_id item)
        in (map (\<lambda>r. if item_id r = item_id item
                       then r\<lparr>metafields := metafields', updated_at := now\<rparr> else r) (fst acc),
            Suc (snd acc)))"

definition refresh_metafields ::
  "string \<Rightarrow> metafield_fetch \<Rightarrow> string \<Rightarrow> string \<Rightarrow> database \<Rightarrow> database \<times> (http_error + response)" where
  "refresh_metafields now fetch shopId orderId db =
     (if shopId = [] \<or> orderId = [] then (db, Inl (Http400 ''Missing required fields''))
      else
        let orderItems = filter (\<lambda>i. order_id i = orderId) (supplier_order_items db)
        in if orderItems = [] then (db, Inr NoItems)
           else
             let variants = variants_in (remdups (map variant_id orderItems)) db;
                 variantShopifyIdMap = variantShopifyIdMap_of variants;
                 metafieldConfigs = active_configs shopId db
             in if metafieldConfigs = [] then (db, Inr NoMetafieldConfig)
                else
                  let variantMetafieldsMap =
                        fetch shopId (map snd variantShopifyIdMap) metafieldConfigs;
                      done = fold (refresh_one now variantShopifyIdMap variantMetafieldsMap)
                               orderItems (supplier_order_items db, 0)
                  in (db\<lparr>supplier_order_items := fst done\<rparr>, Inr (Updated (snd done))))"

record update_data =
  set_updated_at :: string
  set_is_validated :: "bool option"
  set_validated_at :: "string option option"
  set_is_printed :: "bool option"
  set_printed_at :: "string option option"
  set_quantity :: "rat option"
  set_unit_price :: "rat option"
  set_line_total :: "rat option"

definition apply_update :: "update_data \<Rightarrow> order_item \<Rightarrow> order_item" where
  \<comment> \<open>The store's \<open>update(updateData)\<close> on one row: only the keys present are written.\<close>
  "apply_update u r =
     r\<lparr>updated_at := set_updated_at u,
       is_validated := (case set_is_validated u of None \<Rightarrow> is_validated r | Some b \<Rightarrow> b),
       validated_at := (case set_validated_at u of None \<Rightarrow> validated_at r | Some t \<Rightarrow> t),
       is_printed := (case set_is_printed u of None \<Rightarrow> is_printed r | Some b \<Rightarrow> b),
       printed_at := (case set_printed_at u of None \<Rightarrow> printed_at r | Some t \<Rightarrow> t),
       quantity := (case set_quantity u of None \<Rightarrow> quantity r | Some q \<Rightarrow> q),
       unit_price := (case set_unit_price u of None \<Rightarrow> unit_price r | Some p \<Rightarrow> p),
       line_total := (case set_line_total u of None \<Rightarrow> line_total r | Some t \<Rightarrow> t)\<rparr>"

record put_body =
  body_shopId :: string
  body_itemId :: "nat option"
  body_is_validated :: "bool option"
  body_is_printed :: "bool option"
  body_quantity :: "rat option"
  body_unit_price :: "rat option"
  body_action :: "string option"

definition updateData_of :: "string \<Rightarrow> nat \<Rightarrow> put_body \<Rightarrow> database \<Rightarrow> update_data" where
  "updateData_of now itemId body db =
     (let stored = single (filter (\<lambda>r. item_id r = itemId) (supplier_order_items db));
          u0 = \<lparr>set_updated_at = now, set_is_validated = None, set_validated_at = None,
                set_is_printed = None, set_printed_at = None, set_quantity = None,
                set_unit_price = None, set_line_total = None\<rparr>;
          u1 = (case body_is_validated body of
                  None \<Rightarrow> u0
                | Some v \<Rightarrow> u0\<lparr>set_is_validated := Some v,
                               set_validated_at := Some (if v then Some now else None)\<rparr>);
          u2 = (case body_is_printed body of
                  None \<Rightarrow> u1
                | Some p \<Rightarrow> u1\<lparr>set_is_printed := Some p,
                               set_printed_at := Some (if p then Some now else None)\<rparr>);
          u3 = (case body_quantity body of
                  None \<Rightarrow> u2
                | Some q \<Rightarrow>
                    (case stored of
                       None \<Rightarrow> u2\<lparr>set_quantity := Some q\<rparr>
                     | Some item \<Rightarrow>
                         u2\<lparr>set_quantity := Some q,
                            set_line_total :=
                              Some (opt_or (body_unit_price body) (unit_price item) * q)\<rparr>));
          u4 = (case body_unit_price body of
                  None \<Rightarrow> u3
                | Some p \<Rightarrow>
                    (case stored of
                       None \<Rightarrow> u3\<lparr>set_unit_price := Some p\<rparr>
                     | Some item \<Rightarrow>
                         u3\<lparr>set_unit_price := Some p,
                            set_line_total :=
                              Some (p * opt_or (body_quantity body) (quantity item))\<rparr>))
      in u4)"

definition update_item ::
  "string \<Rightarrow> string option \<Rightarrow> string \<Rightarrow> put_body \<Rightarrow> database \<Rightarrow> database \<times> (http_error + response)" where
  \<comment> \<open>\<open>update_error\<close> is the error the store reports for the update, if any.\<close>
  "update_item now update_error orderId body db =
     (case body_itemId body of
        None \<Rightarrow> (db, Inl (Http400 ''Missing required fields''))
      | Some itemId \<Rightarrow>
          if body_shopId body = [] \<or> orderId = []
          then (db, Inl (Http400 ''Missing required fields''))
          else
            let updateData = updateData_of now itemId body db
            in (case update_error of
                  Some msg \<Rightarrow> (db, Inl (Http500 msg))
                | None \<Rightarrow>
                    let table = map (\<lambda>r. if item_id r = itemId then apply_update updateData r else r)
                                  (supplier_order_items db);
                        db1 = db\<lparr>supplier_order_items := table\<rparr>
                    in (case single (filter (\<lambda>r. item_id r = itemId) table) of
                          None \<Rightarrow> (db1, Inl (Http500 ''JSON object requested, multiple (or no) rows returned''))
                        | Some updatedItem \<Rightarrow>
                            if body_quantity body \<noteq> None \<or> body_unit_price body \<noteq> None
                               \<or> body_is_validated body \<noteq> None
                            then (updateOrderTotals now orderId (body_shopId body) db1,
                                  Inr (Item updatedItem))
                            else (db1, Inr (Item updatedItem)))))"

definition PUT ::
  "string \<Rightarrow> metafield_fetch \<Rightarrow> string option \<Rightarrow> string \<Rightarrow> put_body \<Rightarrow> database \<Rightarrow>
   database \<times> (http_error + response)" where
  "PUT now fetch update_error orderId body db =
     (if body_action body = Some ''recalculate_prices''
      then recalculate_prices now (body_shopId body) orderId db
      else if body_action body = Some ''refresh_metafields''
      then refresh_metafields now fetch (body_shopId body) orderId db
      else update_item now update_error orderId body db)"

section \<open>Order items route: DELETE\<close>


section \<open>Synchronisation route: requests to the commerce platform\<close>

text \<open>
  The platform's answers are a parameter of the model: \<open>env k\<close> is the response to the
  \<open>k\<close>-th request of a phase, with its status and, when the status is 2xx, its parsed
  body. The state of a phase counts the requests issued and records, in order, the delays
  awaited before them (in milliseconds) and the messages sent to the progress stream.
\<close>

datatype 'b http_response = Response (http_status: nat) (payload: 'b)

definition ok :: "'b http_response \<Rightarrow> bool" where
  \<comment> \<open>\<open>response.ok\<close>: the status is in the range 200 to 299.\<close>
  "ok r = (200 \<le> http_status r \<and> http_status r \<le> 299)"

datatype event =
    BatchStarted nat nat nat
  | ReceivedFewer nat nat
  | RateLimitRetry nat nat
  | RateLimitGivenUp nat nat
  | BatchFailed nat nat

definition maxRetries :: nat where
  "maxRetries = 3"

definition delay_before :: "nat \<Rightarrow> nat" where
  \<comment> \<open>\<open>retries === 0 ? 500 : 1000 * Math.pow(2, retries)\<close>\<close>
  "delay_before retries = (if retries = 0 then 500 else 1000 * 2 ^ retries)"

definition totalBatches :: "'a list \<Rightarrow> nat" where
  \<comment> \<open>\<open>Math.ceil(inventoryItemIds.length / 50)\<close>\<close>
  "totalBatches ids = (length ids + 49) div 50"

section \<open>Synchronisation route: inventory item costs\<close>

record inventory_item =
  inventory_item_id :: nat
  item_cost :: "rat option"

record cost_state =
  inventoryItemToCost :: "(nat \<times> rat) list"
  itemsWithCost :: nat
  itemsWithoutCost :: nat
  requests :: nat
  waits :: "nat list"
  events :: "event list"

definition record_cost :: "inventory_item \<Rightarrow> cost_state \<Rightarrow> cost_state" where
  \<comment> \<open>The body of \<open>for (const item of items)\<close>; \<open>item_cost\<close> is the parsed \<open>item.cost\<close>,
      \<open>None\<close> when the platform gives none.\<close>
  "record_cost item st =
     (let cost' = (case item_cost item of None \<Rightarrow> 0 | Some c \<Rightarrow> c);
          st1 = st\<lparr>inventoryItemToCost :=
                    AList.update (inventory_item_id item) cost' (inventoryItemToCost st)\<rparr>
      in if cost' > 0 then st1\<lparr>itemsWithCost := Suc (itemsWithCost st1)\<rparr>
         else st1\<lparr>itemsWithoutCost := Suc (itemsWithoutCost st1)\<rparr>)"

function cost_attempts ::
  "(nat \<Rightarrow> inventory_item list http_response) \<Rightarrow> nat \<Rightarrow> nat list \<Rightarrow> nat \<Rightarrow> cost_state \<Rightarrow>
   bool \<times> nat \<times> cost_state" where
  "cost_attempts env batchNum batch retries st =
     (if retries \<le> maxRetries then
        let st1 = st\<lparr>waits := waits st @ [delay_before retries]\<rparr>;
            inventoryResponse = env (requests st1);
            st2 = st1\<lparr>requests := Suc (requests st1)\<rparr>
        in if ok inventoryResponse then
             let items = payload inventoryResponse;
                 st3 = fold record_cost items st2;
                 st4 = (if length items < length batch
                        then st3\<lparr>events := events st3 @ [ReceivedFewer (length items) (length batch)]\<rparr>
                        else st3)
             in (True, retries, st4)
           else if http_status inventoryResponse = 429 then
             let retries' = retries + 1;
                 st3 = st2\<lparr>events := events st2 @
                          [if retries' \<le> maxRetries then RateLimitRetry retries' maxRetries
                           else RateLimitGivenUp batchNum maxRetries]\<rparr>
             in cost_attempts env batchNum batch retries' st3
           else (False, retries,
                 st2\<lparr>events := events st2 @ [BatchFailed batchNum (http_status inventoryResponse)]\<rparr>)
      else (False, retries, st))"
  by pat_completeness auto
termination
  by (relation "measure (\<lambda>(env, batchNum, batch, retries, st). Suc maxRetries - retries)") auto

function cost_batches ::
  "(nat \<Rightarrow> inventory_item list http_response) \<Rightarrow> nat list \<Rightarrow> nat \<Rightarrow> cost_state \<Rightarrow> cost_state" where
  "cost_batches env inventoryItemIds i st =
     (if i < length inventoryItemIds then
        let batchNum = i div 50 + 1;
            batch = take 50 (drop i inventoryItemIds);
            st1 = st\<lparr>events := events st @
                     [BatchStarted batchNum (totalBatches inventoryItemIds) (length batch)]\<rparr>
        in cost_batches env inventoryItemIds (i + 50)
             (snd (snd (cost_attempts env batchNum batch 0 st1)))
      else st)"
  by pat_completeness auto
termination
  by (relation "measure (\<lambda>(env, inventoryItemIds, i, st). length inventoryItemIds - i)") auto


section \<open>Synchronisation route: inventory levels\<close>

record inventory_level =
  level_inventory_item_id :: nat
  level_location_id :: nat
  available :: "int option"

record level_row =
  level_variant_id :: string
  location_id :: nat
  level_quantity :: int
  synced_at :: string

record level_state =
  inventoryToUpsert :: "level_row list"
  level_requests :: nat
  level_waits :: "nat list"
  level_events :: "event list"

definition int_or :: "int option \<Rightarrow> int \<Rightarrow> int" where
  \<comment> \<open>\<open>a || b\<close> for an integer \<open>a\<close> that may be \<open>null\<close>.\<close>
  "int_or a b = (case a of None \<Rightarrow> b | Some v \<Rightarrow> if v = 0 then b else v)"

definition push_level ::
  "string \<Rightarrow> (nat \<times> string) list \<Rightarrow> inventory_level \<Rightarrow> level_row list \<Rightarrow> level_row list" where
  \<comment> \<open>The body of \<open>for (const level of levelsData.inventory_levels || [])\<close>.\<close>
  "push_level now inventoryItemToVariantUuid level rows =
     (case map_of inventoryItemToVariantUuid (level_inventory_item_id level) of
        None \<Rightarrow> rows
      | Some variantUuid \<Rightarrow>
          if variantUuid \<noteq> []
          then rows @ [\<lparr>level_variant_id = variantUuid, location_id = level_location_id level,
                        level_quantity = int_or (available level) 0, synced_at = now\<rparr>]
          else rows)"

function level_attempts ::
  "string \<Rightarrow> (nat \<times> string) list \<Rightarrow> (nat \<Rightarrow> inventory_level list http_response) \<Rightarrow> nat \<Rightarrow> nat \<Rightarrow>
   level_state \<Rightarrow> bool \<times> nat \<times> level_state" where
  "level_attempts now uuids env batchNum retries st =
     (if retries \<le> maxRetries then
        let st1 = st\<lparr>level_waits := level_waits st @ [delay_before retries]\<rparr>;
            levelsResponse = env (level_requests st1);
            st2 = st1\<lparr>level_requests := Suc (level_requests st1)\<rparr>
        in if ok levelsResponse then
             (True, retries,
              st2\<lparr>inventoryToUpsert :=
                    fold (push_level now uuids) (payload levelsResponse) (inventoryToUpsert st2)\<rparr>)
           else if http_status levelsResponse = 429 then
             let retries' = retries + 1;
                 st3 = st2\<lparr>level_events := level_events st2 @
                          [if retries' \<le> maxRetries then RateLimitRetry retries' maxRetries
                           else RateLimitGivenUp batchNum maxRetries]\<rparr>
             in level_attempts now uuids env batchNum retries' st3
           else (False, retries,
                 st2\<lparr>level_events := level_events st2 @
                        [BatchFailed batchNum (http_status levelsResponse)]\<rparr>)
      else (False, retries, st))"
  by pat_completeness auto
termination
  by (relation "measure (\<lambda>(now, uuids, env, batchNum, retries, st). Suc maxRetries - retries)") auto

function level_batches ::
  "string \<Rightarrow> (nat \<times> string) list \<Rightarrow> (nat \<Rightarrow> inventory_level list http_response) \<Rightarrow> nat list \<Rightarrow>
   nat \<Rightarrow> level_state \<Rightarrow> level_state" where
  "level_batches now uuids env inventoryItemIds i st =
     (if i < length inventoryItemIds then
        let batchNum = i div 50 + 1;
            batch = take 50 (drop i inventoryItemIds);
            st1 = st\<lparr>level_events := level_events st @
                     [BatchStarted batchNum (totalBatches inventoryItemIds) (length batch)]\<rparr>
        in level_batches now uuids env inventoryItemIds (i + 50)
             (snd (snd (level_attempts now uuids env batchNum 0 st1)))
      else st)"
  by pat_completeness auto
termination
  by (relation "measure (\<lambda>(now, uuids, env, inventoryItemIds, i, st). length inventoryItemIds - i)")
    auto



section \<open>Inventory statistics route: sizes and colours\<close>
















section \<open>Price rules page: total of a rule\<close>





section \<open>Properties stated by the theorems\<close>


definition scenario :: database where
  "scenario =
     \<lparr>supplier_order_items =
        [\<lparr>item_id = 1, order_id = ''o1'', variant_id = Some ''v1'', product_title = ''Tee'',
          variant_title = ''M'', sku = ''TEE-M'', quantity = 1, unit_price = 10,
          line_total = 10, metafields = [], is_validated = True, validated_at = Some ''t0'',
          is_printed = False, printed_at = None, updated_at = ''t0''\<rparr>,
         \<lparr>item_id = 2, order_id = ''o1'', variant_id = Some ''v2'', product_title = ''Tee'',
          variant_title = ''L'', sku = ''TEE-L'', quantity = 1, unit_price = 15,
          line_total = 15, metafields = [], is_validated = True, validated_at = Some ''t0'',
          is_printed = False, printed_at = None, updated_at = ''t0''\<rparr>,
         \<lparr>item_id = 3, order_id = ''o1'', variant_id = Some ''v3'', product_title = ''Hat'',
          variant_title = ''S'', sku = ''HAT-S'', quantity = 1, unit_price = 99,
          line_total = 99, metafields = [], is_validated = False, validated_at = None,
          is_printed = False, printed_at = None, updated_at = ''t0''\<rparr>],
      supplier_orders =
        [\<lparr>order_key = ''o1'', shop_id = ''s1'', status = ''draft'', subtotal = 0,
          balance_adjustment = - 5, total_ht = 0, total_ttc = 0, order_updated_at = ''t0''\<rparr>],
      product_variants =
        [\<lparr>variant_key = ''v1'', cost = Some 10, shopify_id = Some ''101''\<rparr>,
         \<lparr>variant_key = ''v2'', cost = Some 15, shopify_id = Some ''102''\<rparr>,
         \<lparr>variant_key = ''vX'', cost = Some (15 / 2), shopify_id = Some ''103''\<rparr>],
      metafield_configs = [],
      next_item_id = 4\<rparr>"












section \<open>Order totals\<close>

lemma num_or_zero: "num_or x 0 = x"
  by (simp add: num_or_def)

lemma fold_line_total:
  "fold (\<lambda>item sum. sum + num_or (line_total item) 0) xs a = a + sum_list (map line_total xs)"
  by (induction xs arbitrary: a) (simp_all add: num_or_zero)

lemma fold_line_total':
  "fold (\<lambda>item sum. sum + line_total item) xs a = a + sum_list (map line_total xs)"
  by (induction xs arbitrary: a) simp_all

lemma single_filter_key:
  "distinct (map f xs) \<Longrightarrow> x \<in> set xs \<Longrightarrow> single (filter (\<lambda>y. f y = f x) xs) = Some x"
proof (induction xs)
  case Nil
  then show ?case by simp
next
  case (Cons a xs)
  show ?case
  proof (cases "a = x")
    case True
    with Cons.prems have "filter (\<lambda>y. f y = f x) xs = []"
      by (fastforce simp: filter_empty_conv image_iff)
    with True show ?thesis by (simp add: single_def)
  next
    case False
    with Cons.prems have "x \<in> set xs" "f a \<noteq> f x" by auto
    with Cons show ?thesis by simp
  qed
qed

lemma updateOrderTotals_items:
  "supplier_order_items (updateOrderTotals now orderId shopId db) = supplier_order_items db"
  by (simp add: updateOrderTotals_def Let_def)














section \<open>Adding items\<close>

lemma map_of_fold_update_notin:
  "k \<notin> f ` set vs \<Longrightarrow>
   map_of (fold (\<lambda>v m. AList.update (f v) (g v) m) vs m0) k = map_of m0 k"
  by (induction vs arbitrary: m0) (simp_all add: update_conv')

lemma map_of_fold_update_in:
  "distinct (map f vs) \<Longrightarrow> v \<in> set vs \<Longrightarrow>
   map_of (fold (\<lambda>v m. AList.update (f v) (g v) m) vs m0) (f v) = Some (g v)"
proof (induction vs arbitrary: m0)
  case Nil
  then show ?case by simp
next
  case (Cons a vs)
  show ?case
  proof (cases "v = a")
    case True
    with Cons.prems have "f a \<notin> f ` set vs" by simp
    with True show ?thesis
      by (simp add: map_of_fold_update_notin update_conv')
  next
    case False
    with Cons show ?thesis by simp
  qed
qed

lemma variants_in_iff:
  "v \<in> set (variants_in ids db) \<longleftrightarrow>
     v \<in> set (product_variants db) \<and> Some (variant_key v) \<in> set ids \<and> variant_key v \<noteq> []"
  by (auto simp: variants_in_def truthy_def)

lemma variants_in_distinct:
  "distinct (map variant_key (product_variants db)) \<Longrightarrow>
   distinct (map variant_key (variants_in ids db))"
  by (simp add: variants_in_def distinct_map_filter)

lemma variantCostMap_known:
  assumes "distinct (map variant_key (product_variants db))"
    and "v \<in> set (product_variants db)" and "Some (variant_key v) \<in> set ids"
    and "variant_key v \<noteq> []"
  shows "lookup_or (variantCostMap_of (variants_in ids db)) (Some (variant_key v))
         = Some (opt_or (cost v) 0)"
  unfolding lookup_or_def variantCostMap_of_def option.case
  using assms by (intro map_of_fold_update_in variants_in_distinct) (simp_all add: variants_in_iff)




lemma POST_accepted:
  assumes "shopId \<noteq> []" "orderId \<noteq> []"
  shows "\<exists>db'. POST now fetch None shopId orderId (Some items) db
            = (db', Inr (Items (insert_rows now (next_item_id db)
                                  (itemsToInsert shopId orderId fetch items db))))
          \<and> supplier_order_items db'
            = supplier_order_items db
              @ insert_rows now (next_item_id db) (itemsToInsert shopId orderId fetch items db)"
  using assms
  by (simp add: POST_def Let_def mark_in_progress_def updateOrderTotals_items)

lemma loop_count_of_nat: "loop_count (of_nat N) = N"
  by (simp add: loop_count_def)


lemma insert_rows_prices:
  "map (\<lambda>r. (variant_id r, quantity r, unit_price r, line_total r)) (insert_rows now n rows)
   = map (\<lambda>r. (row_variant_id r, row_quantity r, row_unit_price r, row_line_total r)) rows"
  by (induction rows arbitrary: n) (simp_all add: stored_row_def)

text \<open>
  Claim C3. An accepted add-items request answers with the inserted rows and appends them
  to the table; the rows are the concatenation, entry by entry, of each entry's rows. An
  entry of quantity \<open>N \<ge> 1\<close> whose variant is in the store with cost \<open>c\<close> yields exactly
  \<open>N\<close> rows, each with quantity 1, unit price \<open>c\<close> and line total \<open>c\<close>. Variant keys are
  unique, as the primary key of the table makes them.
\<close>

theorem add_items_one_row_per_unit:
  assumes "distinct (map variant_key (product_variants db))"
    and "shopId \<noteq> []" and "orderId \<noteq> []"
  shows "\<exists>db' inserted g.
      POST now fetch None shopId orderId (Some items) db = (db', Inr (Items inserted))
    \<and> supplier_order_items db' = supplier_order_items db @ inserted
    \<and> map (\<lambda>r. (variant_id r, quantity r, unit_price r, line_total r)) inserted
        = concat (map g items)
    \<and> (\<forall>item \<in> set items. \<forall>N v c.
          add_quantity item = Some (of_nat N) \<and> 1 \<le> N
          \<and> v \<in> set (product_variants db) \<and> add_variant_id item = Some (variant_key v)
          \<and> variant_key v \<noteq> [] \<and> cost v = Some c
          \<longrightarrow> g item = replicate N (Some (variant_key v), 1, c, c))"
proof -
  define variants where "variants = variants_in (map add_variant_id items) db"
  define MM where "MM = (if active_configs shopId db \<noteq> []
      then fetch shopId (map snd (variantShopifyIdMap_of variants)) (active_configs shopId db)
      else [])"
  define U where "U = unit_rows orderId (variantCostMap_of variants)
      (variantShopifyIdMap_of variants) MM"
  define g where "g = (\<lambda>item.
      map (\<lambda>r. (row_variant_id r, row_quantity r, row_unit_price r, row_line_total r)) (U item))"
  have rows: "itemsToInsert shopId orderId fetch items db = concat (map U items)"
    by (simp add: itemsToInsert_def Let_def U_def MM_def variants_def)
  from POST_accepted[OF assms(2,3), of now fetch items db] obtain db' where
    post: "POST now fetch None shopId orderId (Some items) db
            = (db', Inr (Items (insert_rows now (next_item_id db) (concat (map U items)))))"
    and tbl: "supplier_order_items db'
            = supplier_order_items db @ insert_rows now (next_item_id db) (concat (map U items))"
    unfolding rows by blast
  have proj: "map (\<lambda>r. (variant_id r, quantity r, unit_price r, line_total r))
        (insert_rows now (next_item_id db) (concat (map U items))) = concat (map g items)"
    by (simp add: insert_rows_prices map_concat g_def comp_def)
  have unit: "g item = replicate N (Some (variant_key v), 1, c, c)"
    if "item \<in> set items" and q: "add_quantity item = Some (of_nat N)" and "1 \<le> N"
      and v: "v \<in> set (product_variants db)" and vid: "add_variant_id item = Some (variant_key v)"
      and ne: "variant_key v \<noteq> []" and c: "cost v = Some c"
    for item N v c
  proof -
    from that have "Some (variant_key v) \<in> set (map add_variant_id items)"
      by (metis image_eqI list.set_map)
    from variantCostMap_known[OF assms(1) v this ne] c
    have "lookup_or (variantCostMap_of variants) (add_variant_id item) = Some c"
      by (simp add: variants_def vid opt_or_def num_or_def)
    moreover from q \<open>1 \<le> N\<close> have "loop_count (opt_or (add_quantity item) 1) = N"
      by (simp add: opt_or_def num_or_def loop_count_of_nat)
    ultimately show ?thesis
      by (simp add: g_def U_def unit_rows_def Let_def vid opt_or_def num_or_def)
  qed
  from post tbl proj unit show ?thesis by blast
qed

text \<open>
  The add-items scenario of the spec: quantity 3 of a variant of cost 7.50 gives three rows
  of quantity 1, unit price 7.50 and line total 7.50.
\<close>

theorem add_items_one_row_per_unit_witness:
  "distinct (map variant_key (product_variants scenario)) \<and> ''s1'' \<noteq> [] \<and> ''o1'' \<noteq> []
   \<and> (case snd (POST ''t1'' (\<lambda>shop ids configs. []) None ''s1'' ''o1''
          (Some [\<lparr>add_variant_id = Some ''vX'', add_product_title = ''Cap'',
                  add_variant_title = ''Blue'', add_sku = ''CAP-B'', add_quantity = Some 3\<rparr>])
          scenario) of
        Inr (Items rows) \<Rightarrow> map (\<lambda>r. (quantity r, unit_price r, line_total r)) rows
      | _ \<Rightarrow> [])
     = [(1, 15 / 2, 15 / 2), (1, 15 / 2, 15 / 2), (1, 15 / 2, 15 / 2)]"
  using add_items_one_row_per_unit[of scenario "''s1''" "''o1''" "''t1''"
      "\<lambda>shop ids configs. []"
      "[\<lparr>add_variant_id = Some ''vX'', add_product_title = ''Cap'',
         add_variant_title = ''Blue'', add_sku = ''CAP-B'', add_quantity = Some 3\<rparr>]"]
  by (simp add: scenario_def POST_def itemsToInsert_def variants_in_def truthy_def
      variantCostMap_of_def variantShopifyIdMap_of_def active_configs_def unit_rows_def
      metafields_for_def lookup_or_def opt_or_def num_or_def loop_count_def stored_row_def
      updateOrderTotals_def mark_in_progress_def single_def Let_def numeral_3_eq_3)



section \<open>Recalculating prices\<close>

lemma reprice_row:
  "fold (reprice now costMap) S table =
   map (\<lambda>r. case find (\<lambda>i. item_id i = item_id r) (rev S) of
               None \<Rightarrow> r
             | Some x \<Rightarrow> r\<lparr>unit_price := current_cost costMap (variant_id x),
                           line_total := current_cost costMap (variant_id x) * quantity x,
                           updated_at := now\<rparr>) table"
proof (induction S arbitrary: table rule: rev_induct)
  case Nil
  show ?case by simp
next
  case (snoc x S)
  have "fold (reprice now costMap) (S @ [x]) table
        = reprice now costMap x (fold (reprice now costMap) S table)"
    by simp
  also have "\<dots> = reprice now costMap x
      (map (\<lambda>r. case find (\<lambda>i. item_id i = item_id r) (rev S) of
               None \<Rightarrow> r
             | Some x \<Rightarrow> r\<lparr>unit_price := current_cost costMap (variant_id x),
                           line_total := current_cost costMap (variant_id x) * quantity x,
                           updated_at := now\<rparr>) table)"
    by (simp only: snoc)
  also have "\<dots> = map (\<lambda>r. case find (\<lambda>i. item_id i = item_id r) (rev (S @ [x])) of
               None \<Rightarrow> r
             | Some x \<Rightarrow> r\<lparr>unit_price := current_cost costMap (variant_id x),
                           line_total := current_cost costMap (variant_id x) * quantity x,
                           updated_at := now\<rparr>) table"
    by (auto simp: reprice_def Let_def split: option.splits)
  finally show ?case .
qed

lemma find_map_key:
  assumes "\<And>x. P (h x) = P x"
  shows "find P (map h xs) = map_option h (find P xs)"
  using assms by (induction xs) simp_all


lemma single_map: "single (map g ys) = map_option g (single ys)"
  by (auto simp: single_def split: list.splits)

lemma single_filter_map:
  assumes "\<And>x. P (g x) = P x"
  shows "single (filter P (map g xs)) = map_option g (single (filter P xs))"
  by (simp add: filter_map comp_def assms single_map)

lemma updateOrderTotals_absorb:
  "updateOrderTotals n2 orderId shopId
     ((updateOrderTotals n1 orderId shopId db)\<lparr>supplier_order_items := T\<rparr>)
   = updateOrderTotals n2 orderId shopId (db\<lparr>supplier_order_items := T\<rparr>)"
proof -
  define g where "g = (\<lambda>n S B (ord::supplier_order).
     if order_key ord = orderId \<and> shop_id ord = shopId
     then ord\<lparr>subtotal := S, total_ht := S + B, total_ttc := (S + B) * (6 / 5),
             order_updated_at := n\<rparr>
     else ord)"
  define bal where "bal = (\<lambda>xs::supplier_order list.
     case single (filter (\<lambda>x. order_key x = orderId) xs) of
       None \<Rightarrow> 0 | Some x \<Rightarrow> num_or (balance_adjustment x) 0)"
  define tot where "tot = (\<lambda>items::order_item list. sum_list (map line_total
            (filter (\<lambda>i. order_id i = orderId \<and> is_validated i) items)))"
  have upd: "updateOrderTotals n orderId shopId d
      = d\<lparr>supplier_orders := map (g n (tot (supplier_order_items d)) (bal (supplier_orders d)))
             (supplier_orders d)\<rparr>" for n d
    unfolding updateOrderTotals_def g_def bal_def tot_def
    by (simp add: Let_def num_or_zero fold_line_total' filter_filter)
  have key: "single (filter (\<lambda>x. order_key x = orderId) (map (g n S B) xs))
        = map_option (g n S B) (single (filter (\<lambda>x. order_key x = orderId) xs))" for n S B xs
    by (rule single_filter_map) (simp add: g_def)
  have bal_g: "bal (map (g n S B) xs) = bal xs" for n S B xs
    unfolding bal_def key
    by (cases "single (filter (\<lambda>x. order_key x = orderId) xs)") (simp_all add: g_def)
  have gg: "g n2 S2 B2 (g n1 S1 B1 ord) = g n2 S2 B2 ord" for S1 B1 S2 B2 ord
    by (simp add: g_def)
  show ?thesis
    unfolding upd by (simp add: bal_g gg comp_def)
qed

lemma variants_in_cong:
  "product_variants db' = product_variants db \<Longrightarrow> variants_in ids db' = variants_in ids db"
  by (simp add: variants_in_def)

lemma updateOrderTotals_variants:
  "product_variants (updateOrderTotals now orderId shopId db) = product_variants db"
  by (simp add: updateOrderTotals_def Let_def)

lemma reprice_twice:
  fixes S T :: "order_item list" and costMap :: "(string \<times> rat) list"
  defines "h \<equiv> (\<lambda>(n::string) (S::order_item list) (r::order_item). case find (\<lambda>i. item_id i = item_id r) (rev S) of
               None \<Rightarrow> r
             | Some x \<Rightarrow> r\<lparr>unit_price := current_cost costMap (variant_id x),
                           line_total := current_cost costMap (variant_id x) * quantity x,
                           updated_at := n\<rparr>)"
  assumes S: "S = filter (\<lambda>i. order_id i = orderId) T"
    and T1: "T1 = fold (reprice n1 costMap) S T"
    and S1: "S1 = filter (\<lambda>i. order_id i = orderId) T1"
  shows "map variant_id S1 = map variant_id S"
    and "fold (reprice n2 costMap) S1 T1 = fold (reprice n2 costMap) S T"
    and "S1 = [] \<longleftrightarrow> S = []"
    and "length S1 = length S"
proof -
  have keep: "item_id (h n S' r) = item_id r" "order_id (h n S' r) = order_id r"
    "variant_id (h n S' r) = variant_id r" "quantity (h n S' r) = quantity r" for n S' r
    by (simp_all add: h_def split: option.splits)
  have T1': "T1 = map (h n1 S) T"
    unfolding T1 h_def by (rule reprice_row)
  have S1': "S1 = map (h n1 S) S"
    unfolding S1 T1' S by (simp add: filter_map comp_def keep)
  show "map variant_id S1 = map variant_id S"
    by (simp add: S1' comp_def keep)
  show "S1 = [] \<longleftrightarrow> S = []" "length S1 = length S"
    by (simp_all add: S1')
  have found: "find (\<lambda>i. item_id i = item_id r) (rev S1)
        = map_option (h n1 S) (find (\<lambda>i. item_id i = item_id r) (rev S))" for r
    unfolding S1' rev_map by (rule find_map_key) (simp add: keep)
  have again: "h n2 S1 (h n1 S r) = h n2 S r" for r
  proof (cases "find (\<lambda>i. item_id i = item_id r) (rev S)")
    case None
    then show ?thesis by (simp add: h_def found)
  next
    case (Some x)
    have "h n2 S1 (h n1 S r) = (h n1 S r)\<lparr>unit_price := current_cost costMap (variant_id x),
                           line_total := current_cost costMap (variant_id x) * quantity x,
                           updated_at := n2\<rparr>"
      using Some keep[of n1 S x] by (simp add: h_def keep found)
    also have "\<dots> = h n2 S r"
      using Some by (simp add: h_def)
    finally show ?thesis .
  qed
  have "fold (reprice n2 costMap) S1 T1 = map (h n2 S1) T1"
    unfolding h_def by (rule reprice_row)
  also have "\<dots> = map (h n2 S) T"
    by (simp add: T1' again)
  also have "\<dots> = fold (reprice n2 costMap) S T"
    unfolding h_def by (rule reprice_row[symmetric])
  finally show "fold (reprice n2 costMap) S1 T1 = fold (reprice n2 costMap) S T" .
qed


lemma recalculate_prices_again:
  "fst (recalculate_prices n2 shopId orderId (fst (recalculate_prices n1 shopId orderId db)))
   = fst (recalculate_prices n2 shopId orderId db)"
proof (cases "shopId = [] \<or> orderId = []")
  case True
  then show ?thesis by (auto simp: recalculate_prices_def)
next
  case False
  define T where "T = supplier_order_items db"
  define S where "S = filter (\<lambda>i. order_id i = orderId) T"
  define cm where "cm = variantCostMap_of (variants_in (map variant_id S) db)"
  define T1 where "T1 = fold (reprice n1 cm) S T"
  define S1 where "S1 = filter (\<lambda>i. order_id i = orderId) T1"
  note tw = reprice_twice[OF S_def T1_def S1_def]
  show ?thesis
  proof (cases "S = []")
    case True
    with False show ?thesis
      by (simp add: recalculate_prices_def S_def T_def)
  next
    case ne: False
    have once: "fst (recalculate_prices n orderId' orderId d) =
        updateOrderTotals n orderId orderId'
          (d\<lparr>supplier_order_items :=
               fold (reprice n (variantCostMap_of (variants_in
                      (map variant_id (filter (\<lambda>i. order_id i = orderId) (supplier_order_items d))) d)))
                    (filter (\<lambda>i. order_id i = orderId) (supplier_order_items d))
                    (supplier_order_items d)\<rparr>)"
      if "orderId' \<noteq> []" "filter (\<lambda>i. order_id i = orderId) (supplier_order_items d) \<noteq> []"
      for n orderId' d
      using that False by (simp add: recalculate_prices_def Let_def)
    from False have sh: "shopId \<noteq> []" by simp
    have first: "fst (recalculate_prices n1 shopId orderId db)
        = updateOrderTotals n1 orderId shopId (db\<lparr>supplier_order_items := T1\<rparr>)"
      using once[OF sh, of db n1] ne by (simp add: S_def T_def T1_def cm_def)
    have direct: "fst (recalculate_prices n2 shopId orderId db)
        = updateOrderTotals n2 orderId shopId
            (db\<lparr>supplier_order_items := fold (reprice n2 cm) S T\<rparr>)"
      using once[OF sh, of db n2] ne by (simp add: S_def T_def cm_def)
    let ?d1 = "updateOrderTotals n1 orderId shopId (db\<lparr>supplier_order_items := T1\<rparr>)"
    have items1: "supplier_order_items ?d1 = T1"
      by (simp add: updateOrderTotals_items)
    have cm1: "variantCostMap_of (variants_in (map variant_id S1) ?d1) = cm"
      unfolding cm_def tw(1)
      by (simp add: variants_in_cong[of ?d1 db] updateOrderTotals_variants)
    from tw(3) ne have ne1: "S1 \<noteq> []" by simp
    have "fst (recalculate_prices n2 shopId orderId ?d1)
        = updateOrderTotals n2 orderId shopId
            (?d1\<lparr>supplier_order_items := fold (reprice n2 cm) S1 T1\<rparr>)"
      using once[OF sh, of ?d1 n2] ne1 unfolding items1 S1_def[symmetric] cm1 by simp
    also have "\<dots> = updateOrderTotals n2 orderId shopId
            (db\<lparr>supplier_order_items := fold (reprice n2 cm) S1 T1\<rparr>)"
      by (simp add: updateOrderTotals_absorb)
    finally show ?thesis
      unfolding first direct tw(2) .
  qed
qed


lemma recalculate_prices_items:
  "supplier_order_items (fst (recalculate_prices n shopId orderId db)) =
     (if shopId = [] \<or> orderId = [] then supplier_order_items db
      else map (\<lambda>r. case find (\<lambda>i. item_id i = item_id r)
                        (rev (filter (\<lambda>i. order_id i = orderId) (supplier_order_items db))) of
               None \<Rightarrow> r
             | Some x \<Rightarrow>
                 r\<lparr>unit_price := current_cost (variantCostMap_of (variants_in (map variant_id
                       (filter (\<lambda>i. order_id i = orderId) (supplier_order_items db))) db))
                       (variant_id x),
                   line_total := current_cost (variantCostMap_of (variants_in (map variant_id
                       (filter (\<lambda>i. order_id i = orderId) (supplier_order_items db))) db))
                       (variant_id x) * quantity x,
                   updated_at := n\<rparr>) (supplier_order_items db))"
proof (cases "filter (\<lambda>i. order_id i = orderId) (supplier_order_items db) = []")
  case True
  then show ?thesis
    by (simp add: recalculate_prices_def map_idI)
next
  case False
  then show ?thesis
    by (simp add: recalculate_prices_def Let_def updateOrderTotals_items reprice_row)
qed

lemma recalculate_prices_fields:
  "map (\<lambda>r. (item_id r, unit_price r, line_total r))
       (supplier_order_items (fst (recalculate_prices n2 shopId orderId db)))
   = map (\<lambda>r. (item_id r, unit_price r, line_total r))
       (supplier_order_items (fst (recalculate_prices n1 shopId orderId db)))"
  unfolding recalculate_prices_items
  by (auto split: option.splits)

lemma find_key_distinct:
  "distinct (map f xs) \<Longrightarrow> x \<in> set xs \<Longrightarrow> find (\<lambda>i. f i = f x) xs = Some x"
  by (induction xs) (auto simp: image_iff)

lemma recalculated_values:
  assumes "shopId \<noteq> []" and "orderId \<noteq> []"
    and ids: "distinct (map item_id (supplier_order_items db))"
    and keys: "distinct (map variant_key (product_variants db))"
    and r': "r' \<in> set (supplier_order_items (fst (recalculate_prices n shopId orderId db)))"
    and o: "order_id r' = orderId"
  shows "line_total r' = unit_price r' * quantity r'"
    and "v \<in> set (product_variants db) \<Longrightarrow> variant_id r' = Some (variant_key v) \<Longrightarrow>
         variant_key v \<noteq> [] \<Longrightarrow> cost v = Some c \<Longrightarrow> unit_price r' = c"
proof -
  define S where "S = filter (\<lambda>i. order_id i = orderId) (supplier_order_items db)"
  define cm where "cm = variantCostMap_of (variants_in (map variant_id S) db)"
  from r' assms(1,2) obtain r where r: "r \<in> set (supplier_order_items db)"
    and e: "r' = (case find (\<lambda>i. item_id i = item_id r) (rev S) of
               None \<Rightarrow> r
             | Some x \<Rightarrow> r\<lparr>unit_price := current_cost cm (variant_id x),
                   line_total := current_cost cm (variant_id x) * quantity x,
                   updated_at := n\<rparr>)"
    unfolding recalculate_prices_items S_def cm_def by auto
  from e o have "order_id r = orderId"
    by (auto split: option.splits)
  with r have rS: "r \<in> set (rev S)" by (simp add: S_def)
  from ids have "distinct (map item_id (rev S))"
    by (simp add: S_def rev_map[symmetric] distinct_map_filter)
  from find_key_distinct[OF this rS] e
  have e': "r' = r\<lparr>unit_price := current_cost cm (variant_id r),
                   line_total := current_cost cm (variant_id r) * quantity r,
                   updated_at := n\<rparr>"
    by simp
  then show "line_total r' = unit_price r' * quantity r'" by simp
  show "unit_price r' = c"
    if v: "v \<in> set (product_variants db)" and vid: "variant_id r' = Some (variant_key v)"
      and ne: "variant_key v \<noteq> []" and c: "cost v = Some c"
  proof -
    from e' vid have vr: "variant_id r = Some (variant_key v)" by simp
    with rS have "Some (variant_key v) \<in> set (map variant_id S)"
      by (metis image_eqI list.set_map set_rev)
    from variantCostMap_known[OF keys v this ne] c
    have "lookup_or cm (variant_id r) = Some c"
      by (simp add: cm_def vr opt_or_def num_or_def)
    with e' vr ne show ?thesis
      by (simp add: current_cost_def truthy_def opt_or_def num_or_def)
  qed
qed

text \<open>
  Claim C6. Recalculating the prices of an order twice in a row, the variant costs being
  the same, leaves every item with the unit price and line total of a single
  recalculation; the state after the second run is the state a single run at that time
  gives. After a run, every item of the order has \<open>line_total = unit_price * quantity\<close>,
  and its unit price is the current cost of its variant when the store has the variant.
  Item keys and variant keys are unique, as the primary keys make them.
\<close>

theorem recalculate_prices_idempotent:
  assumes "body_action body = Some ''recalculate_prices''"
    and "body_shopId body \<noteq> []" and "orderId \<noteq> []"
    and "distinct (map item_id (supplier_order_items db))"
    and "distinct (map variant_key (product_variants db))"
  shows "map (\<lambda>r. (item_id r, unit_price r, line_total r))
           (supplier_order_items
              (fst (PUT n2 fetch e2 orderId body (fst (PUT n1 fetch e1 orderId body db)))))
         = map (\<lambda>r. (item_id r, unit_price r, line_total r))
             (supplier_order_items (fst (PUT n1 fetch e1 orderId body db)))
    \<and> fst (PUT n2 fetch e2 orderId body (fst (PUT n1 fetch e1 orderId body db)))
        = fst (PUT n2 fetch e2 orderId body db)
    \<and> (\<forall>r \<in> set (supplier_order_items (fst (PUT n1 fetch e1 orderId body db))).
          order_id r = orderId \<longrightarrow>
            line_total r = unit_price r * quantity r
            \<and> (\<forall>v \<in> set (product_variants db). \<forall>c.
                  variant_id r = Some (variant_key v) \<and> variant_key v \<noteq> [] \<and> cost v = Some c
                  \<longrightarrow> unit_price r = c))"
proof -
  have put: "PUT n fetch e orderId body d = recalculate_prices n (body_shopId body) orderId d"
    for n e d
    using assms(1) by (simp add: PUT_def)
  show ?thesis
    unfolding put
    using recalculated_values[OF assms(2-5)]
    by (simp add: recalculate_prices_again recalculate_prices_fields)
qed

lemmas eval_defs = scenario_def POST_def PUT_def update_item_def updateData_of_def apply_update_def
      recalculate_prices_def reprice_def current_cost_def
      itemsToInsert_def variants_in_def truthy_def
      variantCostMap_of_def variantShopifyIdMap_of_def active_configs_def unit_rows_def
      metafields_for_def lookup_or_def opt_or_def num_or_def loop_count_def stored_row_def
      updateOrderTotals_def mark_in_progress_def single_def Let_def

text \<open>Two recalculations of the scenario order; its third item has no variant in the store.\<close>

theorem recalculate_prices_idempotent_witness:
  "distinct (map item_id (supplier_order_items scenario))
   \<and> distinct (map variant_key (product_variants scenario))
   \<and> map (\<lambda>r. (item_id r, unit_price r, line_total r))
        (supplier_order_items
          (fst (PUT ''t2'' (\<lambda>shop ids configs. []) None ''o1''
                 \<lparr>body_shopId = ''s1'', body_itemId = None, body_is_validated = None,
                  body_is_printed = None, body_quantity = None, body_unit_price = None,
                  body_action = Some ''recalculate_prices''\<rparr>
            (fst (PUT ''t1'' (\<lambda>shop ids configs. []) None ''o1''
                 \<lparr>body_shopId = ''s1'', body_itemId = None, body_is_validated = None,
                  body_is_printed = None, body_quantity = None, body_unit_price = None,
                  body_action = Some ''recalculate_prices''\<rparr> scenario)))))
     = [(1, 10, 10), (2, 15, 15), (3, 0, 0)]"
  using recalculate_prices_idempotent[of
      "\<lparr>body_shopId = ''s1'', body_itemId = None, body_is_validated = None,
        body_is_printed = None, body_quantity = None, body_unit_price = None,
        body_action = Some ''recalculate_prices''\<rparr>" "''o1''" scenario
      "''t2''" "\<lambda>shop ids configs. []" None "''t1''" None]
  by (simp add: eval_defs)

section \<open>Updating an item\<close>

text \<open>
  An accepted update keeps \<open>line_total = unit_price * quantity\<close> on the item unless it
  sets the quantity to 0 together with a unit price.
\<close>

lemma update_item_keeps_line_total:
  assumes ids: "distinct (map item_id (supplier_order_items db))"
    and run: "update_item now None orderId body db = (db', Inr (Item it))"
    and r: "r \<in> set (supplier_order_items db)" and id: "body_itemId body = Some (item_id r)"
    and before: "line_total r = unit_price r * quantity r"
    and nz: "body_quantity body \<noteq> Some 0 \<or> body_unit_price body = None"
  shows "line_total it = unit_price it * quantity it"
proof -
  let ?u = "updateData_of now (item_id r) body db"
  let ?table = "map (\<lambda>x. if item_id x = item_id r then apply_update ?u x else x)
                  (supplier_order_items db)"
  have stored: "single (filter (\<lambda>x. item_id x = item_id r) (supplier_order_items db)) = Some r"
    by (rule single_filter_key[OF ids r])
  have "filter (\<lambda>x. item_id x = item_id r) ?table
        = map (apply_update ?u) (filter (\<lambda>x. item_id x = item_id r) (supplier_order_items db))"
    by (induction "supplier_order_items db") (auto simp: apply_update_def filter_map comp_def)
  then have "single (filter (\<lambda>x. item_id x = item_id r) ?table) = Some (apply_update ?u r)"
    using stored by (simp add: single_map)
  with run id have it: "it = apply_update ?u r"
    by (auto simp: update_item_def Let_def split: if_splits)
  show ?thesis
    using before nz unfolding it
    by (cases "body_quantity body"; cases "body_unit_price body";
        cases "body_is_validated body"; cases "body_is_printed body")
       (auto simp: updateData_of_def apply_update_def stored Let_def opt_or_def num_or_def)
qed

text \<open>
  Claim C2. The claim asks for \<open>line_total = unit_price * quantity\<close> on the stored item after
  every update, zero values included. An update that sets quantity 0 together with a unit
  price fails it: \<open>quantity || item.quantity\<close> reads the requested 0 as missing and
  multiplies by the stored quantity. On the first item of the scenario (quantity 1), the
  update to quantity 0 and unit price 5 stores quantity 0, unit price 5 and line total 5.
\<close>

theorem update_item_zero_quantity:
  "map (\<lambda>r. (item_id r, quantity r, unit_price r, line_total r))
     (supplier_order_items
        (fst (PUT ''t1'' (\<lambda>shop ids configs. []) None ''o1''
               \<lparr>body_shopId = ''s1'', body_itemId = Some 1, body_is_validated = None,
                body_is_printed = None, body_quantity = Some 0, body_unit_price = Some 5,
                body_action = None\<rparr> scenario)))
   = [(1, 0, 5, 5), (2, 1, 15, 15), (3, 1, 99, 99)]"
  by (simp add: eval_defs)

section \<open>Order status\<close>

text \<open>
  Claim C4. The claim asks that the status stays among draft, requested, produced and
  completed under every operation, add-items included. Adding an item to the draft order
  of the scenario leaves it with the status \<open>in_progress\<close>, which is none of the four that
  \<open>SupplierOrder.status\<close> declares.
\<close>

theorem add_items_sets_in_progress:
  "map status (supplier_orders scenario) = [''draft'']
   \<and> map status
       (supplier_orders
          (fst (POST ''t1'' (\<lambda>shop ids configs. []) None ''s1'' ''o1''
             (Some [\<lparr>add_variant_id = Some ''vX'', add_product_title = ''Cap'',
                     add_variant_title = ''Blue'', add_sku = ''CAP-B'', add_quantity = Some 1\<rparr>])
             scenario)))
     = [''in_progress'']
   \<and> ''in_progress'' \<notin> {''draft'', ''requested'', ''produced'', ''completed''}"
  by (simp add: eval_defs)

section \<open>Synchronisation: cost batches and retries\<close>

declare cost_attempts.simps [simp del] cost_batches.simps [simp del]
declare level_attempts.simps [simp del] level_batches.simps [simp del]











section \<open>Synchronisation: inventory levels\<close>













section \<open>Inventory statistics: sizes and colours\<close>













section \<open>Price rules: the total of a rule\<close>







end
